theory Spec2Isabelle
  imports Complex_Main
begin

section \<open>Values and errors\<close>

text \<open>
  The two light-curve models of \<^verbatim>\<open>code/Models.py\<close> work on numpy arrays of
  float64. A float64 is modelled as an exact real number or one of the three IEEE 754
  special values. Rounding, overflow and underflow of finite values are not modelled:
  a finite result is the exact real result. The sign of zero is not modelled either:
  the single zero behaves as \<open>+0.0\<close>.
\<close>

datatype fval = Fin real | PInf | NInf | NaN

fun isfinite :: "fval \<Rightarrow> bool" where
  "isfinite (Fin r) = True"
| "isfinite PInf = False"
| "isfinite NInf = False"
| "isfinite NaN = False"

text \<open>Unary minus.\<close>

fun fneg :: "fval \<Rightarrow> fval" where
  "fneg (Fin r) = Fin (- r)"
| "fneg PInf = NInf"
| "fneg NInf = PInf"
| "fneg NaN = NaN"

text \<open>
  Division \<^verbatim>\<open>a / b\<close> of numpy under its default error state, which warns on a
  division by zero and on an invalid operation and carries on with the IEEE result;
  the repository never changes that state.
\<close>

fun fdiv :: "fval \<Rightarrow> fval \<Rightarrow> fval" where
  "fdiv NaN b = NaN"
| "fdiv a NaN = NaN"
| "fdiv (Fin a) (Fin b) =
     (if b = 0 then (if a = 0 then NaN else if 0 < a then PInf else NInf)
      else Fin (a / b))"
| "fdiv (Fin a) PInf = Fin 0"
| "fdiv (Fin a) NInf = Fin 0"
| "fdiv PInf (Fin b) = (if 0 \<le> b then PInf else NInf)"
| "fdiv NInf (Fin b) = (if 0 \<le> b then NInf else PInf)"
| "fdiv PInf PInf = NaN"
| "fdiv PInf NInf = NaN"
| "fdiv NInf PInf = NaN"
| "fdiv NInf NInf = NaN"

text \<open>Multiplication \<^verbatim>\<open>a * b\<close>: infinity times zero is invalid.\<close>

fun fmul :: "fval \<Rightarrow> fval \<Rightarrow> fval" where
  "fmul NaN b = NaN"
| "fmul a NaN = NaN"
| "fmul (Fin a) (Fin b) = Fin (a * b)"
| "fmul (Fin a) PInf = (if a = 0 then NaN else if 0 < a then PInf else NInf)"
| "fmul (Fin a) NInf = (if a = 0 then NaN else if 0 < a then NInf else PInf)"
| "fmul PInf (Fin b) = (if b = 0 then NaN else if 0 < b then PInf else NInf)"
| "fmul NInf (Fin b) = (if b = 0 then NaN else if 0 < b then NInf else PInf)"
| "fmul PInf PInf = PInf"
| "fmul PInf NInf = NInf"
| "fmul NInf PInf = NInf"
| "fmul NInf NInf = PInf"

text \<open>Addition \<^verbatim>\<open>a + b\<close>: the sum of opposite infinities is invalid.\<close>

fun fadd :: "fval \<Rightarrow> fval \<Rightarrow> fval" where
  "fadd NaN b = NaN"
| "fadd a NaN = NaN"
| "fadd (Fin a) (Fin b) = Fin (a + b)"
| "fadd (Fin a) PInf = PInf"
| "fadd (Fin a) NInf = NInf"
| "fadd PInf (Fin b) = PInf"
| "fadd NInf (Fin b) = NInf"
| "fadd PInf PInf = PInf"
| "fadd PInf NInf = NaN"
| "fadd NInf PInf = NaN"
| "fadd NInf NInf = NInf"

text \<open>\<^verbatim>\<open>x**2\<close>: numpy computes a power with the scalar exponent 2 as the square.\<close>

definition fsq :: "fval \<Rightarrow> fval" where
  "fsq x = fmul x x"

text \<open>\<^verbatim>\<open>np.exp\<close>: the exponential of minus infinity is zero.\<close>

fun fexp :: "fval \<Rightarrow> fval" where
  "fexp (Fin r) = Fin (exp r)"
| "fexp PInf = PInf"
| "fexp NInf = Fin 0"
| "fexp NaN = NaN"

text \<open>The exceptions of Python that the modelled code can raise.\<close>

datatype py_error =
    KeyError string
  | IndexError
  | FileNotFoundError
  | NotADirectoryError
  | IsADirectoryError
  | ValueError

text \<open>\<^verbatim>\<open>d[k]\<close> on a dict: a missing key raises \<^verbatim>\<open>KeyError(k)\<close>.\<close>

definition getitem :: "(string \<rightharpoonup> 'v) \<Rightarrow> string \<Rightarrow> py_error + 'v" where
  "getitem d k = (case d k of None \<Rightarrow> Inl (KeyError k) | Some v \<Rightarrow> Inr v)"

section \<open>The light-curve models\<close>

text \<open>
  \<^verbatim>\<open>
  def ModelA_lightcurve(times, params):
      x = times / params['duration']
      light_curve = params['amplitude']*np.exp( -x**2 )
      return light_curve
  \<close>
  \<open>times\<close> is a numpy array of shape \<open>(Ntimes,)\<close>, a list here; the parameters
  are scalars, so every operation is elementwise on the array. The key
  \<^verbatim>\<open>'duration'\<close> is looked up first, then \<open>x\<close> is computed, then
  \<^verbatim>\<open>'amplitude'\<close> is looked up. \<^verbatim>\<open>-x**2\<close> is \<open>-(x**2)\<close>.
\<close>

type_synonym params = "string \<rightharpoonup> fval"

definition ModelA_lightcurve :: "fval list \<Rightarrow> params \<Rightarrow> py_error + fval list" where
  "ModelA_lightcurve times' params =
     (case getitem params ''duration'' of
        Inl e \<Rightarrow> Inl e
      | Inr duration \<Rightarrow>
          (let x = map (\<lambda>t. fdiv t duration) times'
           in case getitem params ''amplitude'' of
                Inl e \<Rightarrow> Inl e
              | Inr amplitude \<Rightarrow>
                  Inr (map (\<lambda>v. fmul amplitude (fexp (fneg (fsq v)))) x)))"

text \<open>
  \<^verbatim>\<open>
  def ModelB_lightcurve(times, params):
      x = times / params['duration']
      light_curve = params['amplitude'] / ( 1 + x**2 )
      return light_curve
  \<close>
\<close>

definition ModelB_lightcurve :: "fval list \<Rightarrow> params \<Rightarrow> py_error + fval list" where
  "ModelB_lightcurve times' params =
     (case getitem params ''duration'' of
        Inl e \<Rightarrow> Inl e
      | Inr duration \<Rightarrow>
          (let x = map (\<lambda>t. fdiv t duration) times'
           in case getitem params ''amplitude'' of
                Inl e \<Rightarrow> Inl e
              | Inr amplitude \<Rightarrow>
                  Inr (map (\<lambda>v. fdiv amplitude (fadd (Fin 1) (fsq v))) x)))"

section \<open>The evidence lookup\<close>

subsection \<open>The file system\<close>

text \<open>
  \<^verbatim>\<open>code/Utils.py\<close> reads the file system through \<^verbatim>\<open>os.listdir\<close> and
  \<^verbatim>\<open>np.loadtxt\<close>. The file system is a map from a path, as the program writes
  it (relative to the working directory), to what is there: a directory with its entry
  names in the order \<^verbatim>\<open>os.listdir\<close> returns them, or a file with its text.
  Permissions are not modelled.
\<close>

datatype node = Dir "string list" | File string

type_synonym filesystem = "string \<rightharpoonup> node"

definition listdir :: "filesystem \<Rightarrow> string \<Rightarrow> py_error + string list" where
  "listdir fs path =
     (case fs path of
        None \<Rightarrow> Inl FileNotFoundError
      | Some (File text) \<Rightarrow> Inl NotADirectoryError
      | Some (Dir names) \<Rightarrow> Inr names)"

subsection \<open>Strings\<close>

text \<open>\<^verbatim>\<open>str(n)\<close> of a Python integer: its decimal digits, with a minus sign if negative.\<close>

definition digit_char :: "nat \<Rightarrow> char" where
  "digit_char n = ''0123456789'' ! n"

fun str_nat :: "nat \<Rightarrow> string" where
  "str_nat n = (if n < 10 then [digit_char n] else str_nat (n div 10) @ [digit_char (n mod 10)])"

declare str_nat.simps [simp del]

definition str_int :: "int \<Rightarrow> string" where
  "str_int i = (if i < 0 then CHR ''-'' # str_nat (nat (- i)) else str_nat (nat i))"

text \<open>\<^verbatim>\<open>s.startswith(p)\<close> and the substring test \<^verbatim>\<open>sub in s\<close>.\<close>

fun startswith :: "string \<Rightarrow> string \<Rightarrow> bool" where
  "startswith s [] = True"
| "startswith [] (p # ps) = False"
| "startswith (c # cs) (p # ps) = (c = p \<and> startswith cs ps)"

fun str_in :: "string \<Rightarrow> string \<Rightarrow> bool" where
  "str_in sub [] = (sub = [])"
| "str_in sub (c # cs) = (startswith (c # cs) sub \<or> str_in sub cs)"

subsection \<open>Reading numeric text\<close>

text \<open>
  \<^verbatim>\<open>np.loadtxt(path)\<close> with its default arguments: the file is read in text mode
  (universal newlines), a \<^verbatim>\<open>#\<close> starts a comment that runs to the end of the
  line, lines without a token are skipped, the tokens of a line are separated by
  whitespace, every token is converted to a float, and every line must have as many
  tokens as the first.
\<close>

fun universal_newlines :: "string \<Rightarrow> string" where
  "universal_newlines [] = []"
| "universal_newlines [c] = (if c = CHR 0x0D then [CHR 0x0A] else [c])"
| "universal_newlines (c # d # s) =
     (if c = CHR 0x0D then
        (if d = CHR 0x0A then CHR 0x0A # universal_newlines s
         else CHR 0x0A # universal_newlines (d # s))
      else c # universal_newlines (d # s))"

text \<open>Cutting a string at every character that satisfies \<open>sep\<close>; the pieces may be empty.\<close>

fun split_when :: "(char \<Rightarrow> bool) \<Rightarrow> string \<Rightarrow> string list" where
  "split_when sep [] = [[]]"
| "split_when sep (c # s) =
     (if sep c then [] # split_when sep s
      else (case split_when sep s of
              [] \<Rightarrow> [[c]]
            | piece # pieces \<Rightarrow> (c # piece) # pieces))"

definition isspace :: "char \<Rightarrow> bool" where
  "isspace c = (c \<in> set [CHR 0x20, CHR 0x09, CHR 0x0A, CHR 0x0B, CHR 0x0C, CHR 0x0D,
                            CHR 0x1C, CHR 0x1D, CHR 0x1E, CHR 0x1F])"

definition strip_comment :: "string \<Rightarrow> string" where
  "strip_comment line = takeWhile (\<lambda>c. c \<noteq> CHR ''#'') line"

definition tokens :: "string \<Rightarrow> string list" where
  "tokens line = filter (\<lambda>w. w \<noteq> []) (split_when isspace line)"

definition token_rows :: "string \<Rightarrow> string list list" where
  "token_rows text =
     filter (\<lambda>row. row \<noteq> [])
       (map (\<lambda>line. tokens (strip_comment line))
          (split_when (\<lambda>c. c = CHR 0x0A) (universal_newlines text)))"

text \<open>
  The conversion of one token to a float. Modelled are the decimal spellings
  \<^verbatim>\<open>[sign] digits [. digits] [e [sign] digits]\<close> (a digit on at least one side
  of the point) and the words \<^verbatim>\<open>inf\<close>, \<^verbatim>\<open>infinity\<close> and \<^verbatim>\<open>nan\<close>
  in any case; every other token is refused, as a token that is not a number is.
\<close>

definition isdigit :: "char \<Rightarrow> bool" where
  "isdigit c = (c \<in> set ''0123456789'')"

definition digit_val :: "char \<Rightarrow> nat" where
  "digit_val c = length (takeWhile (\<lambda>d. d \<noteq> c) ''0123456789'')"

definition digits_val :: "string \<Rightarrow> nat" where
  "digits_val ds = foldl (\<lambda>n c. 10 * n + digit_val c) 0 ds"

definition all_digits :: "string \<Rightarrow> bool" where
  "all_digits ds = (ds \<noteq> [] \<and> list_all isdigit ds)"

definition split_sign :: "string \<Rightarrow> bool \<times> string" where
  "split_sign s =
     (case s of
        [] \<Rightarrow> (False, [])
      | c # r \<Rightarrow> if c = CHR ''-'' then (True, r)
                 else if c = CHR ''+'' then (False, r) else (False, s))"

definition lower :: "char \<Rightarrow> char" where
  "lower c =
     (case map_of (zip ''ABCDEFGHIJKLMNOPQRSTUVWXYZ'' ''abcdefghijklmnopqrstuvwxyz'') c of
        None \<Rightarrow> c
      | Some l \<Rightarrow> l)"

definition parse_mantissa :: "string \<Rightarrow> real option" where
  "parse_mantissa m =
     (let ip = takeWhile (\<lambda>c. c \<noteq> CHR ''.'') m
      in case dropWhile (\<lambda>c. c \<noteq> CHR ''.'') m of
           [] \<Rightarrow> if all_digits ip then Some (real (digits_val ip)) else None
         | dot # fp \<Rightarrow>
             if list_all isdigit ip \<and> list_all isdigit fp \<and> (ip \<noteq> [] \<or> fp \<noteq> [])
             then Some (real (digits_val ip) + real (digits_val fp) / 10 ^ length fp)
             else None)"

definition parse_exponent :: "string \<Rightarrow> int option" where
  "parse_exponent r =
     (case r of
        [] \<Rightarrow> Some 0
      | e # ex \<Rightarrow>
          (let (neg, ds) = split_sign ex
           in if all_digits ds
              then Some (if neg then - int (digits_val ds) else int (digits_val ds))
              else None))"

definition scale10 :: "real \<Rightarrow> int \<Rightarrow> real" where
  "scale10 x e = (if 0 \<le> e then x * 10 ^ nat e else x / 10 ^ nat (- e))"

definition parse_decimal :: "string \<Rightarrow> real option" where
  "parse_decimal s =
     (let notexp = (\<lambda>c. c \<noteq> CHR ''e'' \<and> c \<noteq> CHR ''E'')
      in case parse_mantissa (takeWhile notexp s) of
           None \<Rightarrow> None
         | Some x \<Rightarrow>
             (case parse_exponent (dropWhile notexp s) of
                None \<Rightarrow> None
              | Some e \<Rightarrow> Some (scale10 x e)))"

definition to_float :: "string \<Rightarrow> fval option" where
  "to_float tok =
     (let (neg, body) = split_sign tok; word = map lower body
      in if word = ''inf'' \<or> word = ''infinity'' then Some (if neg then NInf else PInf)
         else if word = ''nan'' then Some NaN
         else (case parse_decimal body of
                 None \<Rightarrow> None
               | Some x \<Rightarrow> Some (Fin (if neg then - x else x))))"

text \<open>
  What \<^verbatim>\<open>np.loadtxt\<close> returns: the table of the file with every axis of length
  one removed. One value alone is a zero-dimensional array, one row or one column is a
  one-dimensional array, and a file without data is an empty one-dimensional array
  (with a warning).
\<close>

datatype ndarray = Arr0 fval | Arr1 "fval list" | Arr2 "fval list list"

fun convert_row :: "string list \<Rightarrow> fval list option" where
  "convert_row [] = Some []"
| "convert_row (tok # toks) =
     (case to_float tok of
        None \<Rightarrow> None
      | Some v \<Rightarrow> (case convert_row toks of None \<Rightarrow> None | Some vs \<Rightarrow> Some (v # vs)))"

fun convert_rows :: "string list list \<Rightarrow> fval list list option" where
  "convert_rows [] = Some []"
| "convert_rows (row # rows) =
     (case convert_row row of
        None \<Rightarrow> None
      | Some vs \<Rightarrow> (case convert_rows rows of None \<Rightarrow> None | Some vss \<Rightarrow> Some (vs # vss)))"

definition squeeze :: "fval list list \<Rightarrow> ndarray" where
  "squeeze table =
     (case table of
        [] \<Rightarrow> Arr1 []
      | [row] \<Rightarrow> (case row of [v] \<Rightarrow> Arr0 v | _ \<Rightarrow> Arr1 row)
      | _ \<Rightarrow> if list_all (\<lambda>row. length row = 1) table then Arr1 (map hd table)
             else Arr2 table)"

definition parse_table :: "string \<Rightarrow> py_error + fval list list" where
  "parse_table text =
     (case convert_rows (token_rows text) of
        None \<Rightarrow> Inl ValueError
      | Some table \<Rightarrow>
          if list_all (\<lambda>row. length row = length (hd table)) table then Inr table
          else Inl ValueError)"

definition loadtxt :: "filesystem \<Rightarrow> string \<Rightarrow> py_error + ndarray" where
  "loadtxt fs path =
     (case fs path of
        None \<Rightarrow> Inl FileNotFoundError
      | Some (Dir names) \<Rightarrow> Inl IsADirectoryError
      | Some (File text) \<Rightarrow>
          (case parse_table text of
             Inl e \<Rightarrow> Inl e
           | Inr table \<Rightarrow> Inr (squeeze table)))"

text \<open>
  \<^verbatim>\<open>a[0]\<close> on what was loaded: a zero-dimensional array cannot be indexed, a
  one-dimensional array gives its first number, a two-dimensional array its first row.
\<close>

datatype pyvalue = Float fval | Array "fval list"

fun index0 :: "ndarray \<Rightarrow> py_error + pyvalue" where
  "index0 (Arr0 v) = Inl IndexError"
| "index0 (Arr1 []) = Inl IndexError"
| "index0 (Arr1 (v # vs)) = Inr (Float v)"
| "index0 (Arr2 []) = Inl IndexError"
| "index0 (Arr2 (row # rows)) = Inr (Array row)"

subsection \<open>GetEvidence\<close>

text \<open>
  \<^verbatim>\<open>
  def GetEvidence(eventID, model='A'):
      folder = 'results/event'+str(eventID)+'_'+model+'/'
      files = os.listdir(folder)
      evidence_file = [file for file in files if 'evidence.txt' in file][0]
      return np.loadtxt(folder+evidence_file)[0]
  \<close>
  The file system is an argument of the model; \<open>eventID\<close> is an integer.
\<close>

definition results_folder :: "int \<Rightarrow> string \<Rightarrow> string" where
  "results_folder eventID model = ''results/event'' @ str_int eventID @ ''_'' @ model @ ''/''"

definition GetEvidence :: "filesystem \<Rightarrow> int \<Rightarrow> string \<Rightarrow> py_error + pyvalue" where
  "GetEvidence fs eventID model =
     (let folder = results_folder eventID model
      in case listdir fs folder of
           Inl e \<Rightarrow> Inl e
         | Inr files \<Rightarrow>
             (case filter (\<lambda>file. str_in ''evidence.txt'' file) files of
                [] \<Rightarrow> Inl IndexError
              | evidence_file # others \<Rightarrow>
                  (case loadtxt fs (folder @ evidence_file) of
                     Inl e \<Rightarrow> Inl e
                   | Inr data \<Rightarrow> index0 data)))"

section \<open>Properties of the light-curve models\<close>

subsection \<open>Auxiliary facts\<close>

text \<open>With both keys present neither model raises, and the result is the elementwise profile.\<close>

lemma ModelA_valid:
  assumes "params ''amplitude'' = Some amplitude" and "params ''duration'' = Some duration"
  shows "ModelA_lightcurve ts params =
           Inr (map (\<lambda>t. fmul amplitude (fexp (fneg (fsq (fdiv t duration))))) ts)"
  using assms by (simp add: ModelA_lightcurve_def getitem_def comp_def)

lemma ModelB_valid:
  assumes "params ''amplitude'' = Some amplitude" and "params ''duration'' = Some duration"
  shows "ModelB_lightcurve ts params =
           Inr (map (\<lambda>t. fdiv amplitude (fadd (Fin 1) (fsq (fdiv t duration)))) ts)"
  using assms by (simp add: ModelB_lightcurve_def getitem_def comp_def)

lemma fsq_Fin [simp]: "fsq (Fin r) = Fin (r\<^sup>2)"
  by (simp add: fsq_def power2_eq_square)

lemma one_plus_square_nonzero: "1 + r\<^sup>2 \<noteq> (0::real)"
  using zero_le_power2 [of r] by linarith

lemma square_quotient_mono:
  fixes d :: real
  assumes "0 \<le> t1" and "t1 < t2"
  shows "(t1 / d)\<^sup>2 \<le> (t2 / d)\<^sup>2"
proof -
  have "\<bar>t1\<bar> \<le> \<bar>t2\<bar>" using assms by simp
  then have "\<bar>t1\<bar> / \<bar>d\<bar> \<le> \<bar>t2\<bar> / \<bar>d\<bar>" by (rule divide_right_mono) simp
  then have "\<bar>t1 / d\<bar> \<le> \<bar>t2 / d\<bar>" by simp
  then show ?thesis by (simp only: abs_le_square_iff)
qed

subsection \<open>The closed forms\<close>

text \<open>
  C1. For a time array of real numbers and a parameter mapping with a real
  \<open>amplitude\<close> and a real \<open>duration\<close> other than zero, Model A returns,
  element by element, \<open>amplitude * exp (- (t / duration)\<^sup>2)\<close>; in particular
  the light curve of the array \<open>[0]\<close> is \<open>[amplitude]\<close>.
\<close>

theorem ModelA_formula:
  assumes "params ''amplitude'' = Some (Fin a)" and "params ''duration'' = Some (Fin d)"
    and "d \<noteq> 0"
  shows "ModelA_lightcurve (map Fin ts) params =
           Inr (map (\<lambda>t. Fin (a * exp (- ((t / d)\<^sup>2)))) ts)
         \<and> ModelA_lightcurve [Fin 0] params = Inr [Fin a]"
  using assms by (simp add: ModelA_valid comp_def)

theorem ModelA_formula_witness:
  "[''amplitude'' \<mapsto> Fin 2, ''duration'' \<mapsto> Fin 3] ''amplitude'' = Some (Fin 2)
   \<and> [''amplitude'' \<mapsto> Fin 2, ''duration'' \<mapsto> Fin 3] ''duration'' = Some (Fin 3)
   \<and> (3::real) \<noteq> 0
   \<and> ModelA_lightcurve [Fin 0, Fin 3] [''amplitude'' \<mapsto> Fin 2, ''duration'' \<mapsto> Fin 3]
       = Inr [Fin 2, Fin (2 * exp (- 1))]
   \<and> ModelA_lightcurve [Fin 0] [''amplitude'' \<mapsto> Fin 2, ''duration'' \<mapsto> Fin 3] = Inr [Fin 2]"
  using ModelA_formula [of "[''amplitude'' \<mapsto> Fin 2, ''duration'' \<mapsto> Fin 3]" 2 3 "[0, 3]"]
  by simp

text \<open>
  C2. Under the same conditions Model B returns, element by element,
  \<open>amplitude / (1 + (t / duration)\<^sup>2)\<close>; in particular the light curve of
  the array \<open>[0]\<close> is \<open>[amplitude]\<close>.
\<close>

theorem ModelB_formula:
  assumes "params ''amplitude'' = Some (Fin a)" and "params ''duration'' = Some (Fin d)"
    and "d \<noteq> 0"
  shows "ModelB_lightcurve (map Fin ts) params =
           Inr (map (\<lambda>t. Fin (a / (1 + (t / d)\<^sup>2))) ts)
         \<and> ModelB_lightcurve [Fin 0] params = Inr [Fin a]"
  using assms by (simp add: ModelB_valid comp_def one_plus_square_nonzero)

theorem ModelB_formula_witness:
  "[''amplitude'' \<mapsto> Fin 2, ''duration'' \<mapsto> Fin 3] ''amplitude'' = Some (Fin 2)
   \<and> [''amplitude'' \<mapsto> Fin 2, ''duration'' \<mapsto> Fin 3] ''duration'' = Some (Fin 3)
   \<and> (3::real) \<noteq> 0
   \<and> ModelB_lightcurve [Fin 0, Fin 3] [''amplitude'' \<mapsto> Fin 2, ''duration'' \<mapsto> Fin 3]
       = Inr [Fin 2, Fin 1]
   \<and> ModelB_lightcurve [Fin 0] [''amplitude'' \<mapsto> Fin 2, ''duration'' \<mapsto> Fin 3] = Inr [Fin 2]"
  using ModelB_formula [of "[''amplitude'' \<mapsto> Fin 2, ''duration'' \<mapsto> Fin 3]" 2 3 "[0, 3]"]
  by simp

subsection \<open>Length, symmetry and decay\<close>

text \<open>
  C4. With both keys present, each model returns a light curve that is as long as the
  time array, whatever its length (also for a zero duration, which only changes the
  values).
\<close>

theorem lightcurve_length:
  assumes "params ''amplitude'' = Some amplitude" and "params ''duration'' = Some duration"
  shows "\<exists>lcA lcB. ModelA_lightcurve ts params = Inr lcA \<and> length lcA = length ts
           \<and> ModelB_lightcurve ts params = Inr lcB \<and> length lcB = length ts"
  using assms by (simp add: ModelA_valid ModelB_valid)

theorem lightcurve_length_witness:
  "[''amplitude'' \<mapsto> Fin 2, ''duration'' \<mapsto> Fin 3] ''amplitude'' = Some (Fin 2)
   \<and> [''amplitude'' \<mapsto> Fin 2, ''duration'' \<mapsto> Fin 3] ''duration'' = Some (Fin 3)
   \<and> (\<exists>lcA lcB.
         ModelA_lightcurve [Fin 0, Fin 1, Fin 5] [''amplitude'' \<mapsto> Fin 2, ''duration'' \<mapsto> Fin 3]
           = Inr lcA \<and> length lcA = 3
         \<and> ModelB_lightcurve [Fin 0, Fin 1, Fin 5] [''amplitude'' \<mapsto> Fin 2, ''duration'' \<mapsto> Fin 3]
           = Inr lcB \<and> length lcB = 3)"
  using lightcurve_length [of "[''amplitude'' \<mapsto> Fin 2, ''duration'' \<mapsto> Fin 3]"
      "Fin 2" "Fin 3" "[Fin 0, Fin 1, Fin 5]"]
  by (simp add: numeral_3_eq_3)

text \<open>
  C5. For every real \<open>t\<close> and valid parameters (\<open>duration\<close> not zero), each
  model returns the same real number at \<open>t\<close> and at \<open>- t\<close>.
\<close>

theorem lightcurve_symmetric:
  assumes "params ''amplitude'' = Some (Fin a)" and "params ''duration'' = Some (Fin d)"
    and "d \<noteq> 0"
  shows "(\<exists>v. ModelA_lightcurve [Fin t] params = Inr [Fin v]
              \<and> ModelA_lightcurve [Fin (- t)] params = Inr [Fin v])
         \<and> (\<exists>v. ModelB_lightcurve [Fin t] params = Inr [Fin v]
              \<and> ModelB_lightcurve [Fin (- t)] params = Inr [Fin v])"
  using assms by (simp add: ModelA_valid ModelB_valid one_plus_square_nonzero)

theorem lightcurve_symmetric_witness:
  "[''amplitude'' \<mapsto> Fin 2, ''duration'' \<mapsto> Fin 3] ''amplitude'' = Some (Fin 2)
   \<and> [''amplitude'' \<mapsto> Fin 2, ''duration'' \<mapsto> Fin 3] ''duration'' = Some (Fin 3)
   \<and> (3::real) \<noteq> 0
   \<and> (\<exists>v. ModelA_lightcurve [Fin 6] [''amplitude'' \<mapsto> Fin 2, ''duration'' \<mapsto> Fin 3] = Inr [Fin v]
          \<and> ModelA_lightcurve [Fin (- 6)] [''amplitude'' \<mapsto> Fin 2, ''duration'' \<mapsto> Fin 3] = Inr [Fin v])
   \<and> (\<exists>v. ModelB_lightcurve [Fin 6] [''amplitude'' \<mapsto> Fin 2, ''duration'' \<mapsto> Fin 3] = Inr [Fin v]
          \<and> ModelB_lightcurve [Fin (- 6)] [''amplitude'' \<mapsto> Fin 2, ''duration'' \<mapsto> Fin 3] = Inr [Fin v])"
  using lightcurve_symmetric [of "[''amplitude'' \<mapsto> Fin 2, ''duration'' \<mapsto> Fin 3]" 2 3 6]
  by simp

text \<open>
  C6. For \<open>0 \<le> t1 < t2\<close>, a positive amplitude and a duration other than zero,
  the absolute value of Model A at \<open>t2\<close> is at most its absolute value at \<open>t1\<close>.
\<close>

theorem ModelA_monotonic_decay:
  assumes "params ''amplitude'' = Some (Fin a)" and "params ''duration'' = Some (Fin d)"
    and "d \<noteq> 0" and "0 < a" and "0 \<le> t1" and "t1 < t2"
  shows "\<exists>v1 v2. ModelA_lightcurve [Fin t1] params = Inr [Fin v1]
           \<and> ModelA_lightcurve [Fin t2] params = Inr [Fin v2]
           \<and> \<bar>v2\<bar> \<le> \<bar>v1\<bar>"
proof -
  have "exp (- ((t2 / d)\<^sup>2)) \<le> exp (- ((t1 / d)\<^sup>2))"
    using square_quotient_mono [OF assms(5,6), of d] by simp
  then have "a * exp (- ((t2 / d)\<^sup>2)) \<le> a * exp (- ((t1 / d)\<^sup>2))"
    using \<open>0 < a\<close> by simp
  moreover have "0 \<le> a * exp (- ((t2 / d)\<^sup>2))"
    using \<open>0 < a\<close> by simp
  ultimately have "\<bar>a * exp (- ((t2 / d)\<^sup>2))\<bar> \<le> \<bar>a * exp (- ((t1 / d)\<^sup>2))\<bar>"
    by linarith
  then show ?thesis
    using assms(1,2,3) by (simp add: ModelA_valid)
qed

theorem ModelA_monotonic_decay_witness:
  "[''amplitude'' \<mapsto> Fin 2, ''duration'' \<mapsto> Fin 3] ''amplitude'' = Some (Fin 2)
   \<and> [''amplitude'' \<mapsto> Fin 2, ''duration'' \<mapsto> Fin 3] ''duration'' = Some (Fin 3)
   \<and> (3::real) \<noteq> 0 \<and> (0::real) < 2 \<and> (0::real) \<le> 0 \<and> (0::real) < 3
   \<and> (\<exists>v1 v2. ModelA_lightcurve [Fin 0] [''amplitude'' \<mapsto> Fin 2, ''duration'' \<mapsto> Fin 3] = Inr [Fin v1]
          \<and> ModelA_lightcurve [Fin 3] [''amplitude'' \<mapsto> Fin 2, ''duration'' \<mapsto> Fin 3] = Inr [Fin v2]
          \<and> \<bar>v2\<bar> \<le> \<bar>v1\<bar>)"
  using ModelA_monotonic_decay [of "[''amplitude'' \<mapsto> Fin 2, ''duration'' \<mapsto> Fin 3]" 2 3 0 3]
  by simp

subsection \<open>Zero duration and missing keys\<close>

text \<open>
  C7, as the specification states it, fails: with a zero duration and the time array
  \<open>[1]\<close> both models return without an error, and the value they return is the
  finite number 0. The quotient \<open>1 / 0\<close> is infinite, but \<open>exp (- \<infinity>)\<close> is 0
  and so is \<open>amplitude / (1 + \<infinity>)\<close>.
\<close>

theorem zero_duration_finite_counterexample:
  "ModelA_lightcurve [Fin 1] [''amplitude'' \<mapsto> Fin 2, ''duration'' \<mapsto> Fin 0] = Inr [Fin 0]
   \<and> ModelB_lightcurve [Fin 1] [''amplitude'' \<mapsto> Fin 2, ''duration'' \<mapsto> Fin 0] = Inr [Fin 0]
   \<and> list_all isfinite [Fin 0]"
  by (simp add: ModelA_lightcurve_def ModelB_lightcurve_def getitem_def fsq_def)

text \<open>
  C7, amended. With a zero duration and a real amplitude neither model raises an error.
  The quotient \<open>t / duration\<close> is not finite for any real \<open>t\<close>; the value
  returned is NaN where \<open>t = 0\<close> and the finite number 0 where \<open>t \<noteq> 0\<close>.
\<close>

theorem zero_duration_result:
  assumes "params ''amplitude'' = Some (Fin a)" and "params ''duration'' = Some (Fin 0)"
  shows "ModelA_lightcurve (map Fin ts) params = Inr (map (\<lambda>t. if t = 0 then NaN else Fin 0) ts)
         \<and> ModelB_lightcurve (map Fin ts) params = Inr (map (\<lambda>t. if t = 0 then NaN else Fin 0) ts)
         \<and> \<not> isfinite (fdiv (Fin t) (Fin 0))"
  using assms by (simp add: ModelA_valid ModelB_valid comp_def fsq_def)

theorem zero_duration_result_witness:
  "[''amplitude'' \<mapsto> Fin 2, ''duration'' \<mapsto> Fin 0] ''amplitude'' = Some (Fin 2)
   \<and> [''amplitude'' \<mapsto> Fin 2, ''duration'' \<mapsto> Fin 0] ''duration'' = Some (Fin 0)
   \<and> ModelA_lightcurve [Fin (- 1), Fin 0, Fin 1] [''amplitude'' \<mapsto> Fin 2, ''duration'' \<mapsto> Fin 0]
       = Inr [Fin 0, NaN, Fin 0]
   \<and> ModelB_lightcurve [Fin (- 1), Fin 0, Fin 1] [''amplitude'' \<mapsto> Fin 2, ''duration'' \<mapsto> Fin 0]
       = Inr [Fin 0, NaN, Fin 0]
   \<and> \<not> isfinite (fdiv (Fin 1) (Fin 0))"
  using zero_duration_result [of "[''amplitude'' \<mapsto> Fin 2, ''duration'' \<mapsto> Fin 0]" 2 "[- 1, 0, 1]" 1]
  by simp

text \<open>
  C8. When the parameter mapping lacks the key \<open>amplitude\<close> or the key
  \<open>duration\<close>, both models raise a KeyError, for every time array, and return
  nothing: the KeyError names \<open>duration\<close> when that key is missing, else
  \<open>amplitude\<close>.
\<close>

theorem missing_key_raises:
  assumes "params ''amplitude'' = None \<or> params ''duration'' = None"
  shows "ModelA_lightcurve ts params =
           Inl (KeyError (if params ''duration'' = None then ''duration'' else ''amplitude''))
         \<and> ModelB_lightcurve ts params =
           Inl (KeyError (if params ''duration'' = None then ''duration'' else ''amplitude''))"
  using assms
  by (auto simp add: ModelA_lightcurve_def ModelB_lightcurve_def getitem_def
      split: option.splits)

theorem missing_key_raises_witness:
  "([''duration'' \<mapsto> Fin 3] ''amplitude'' = None \<or> [''duration'' \<mapsto> Fin 3] ''duration'' = None)
   \<and> ModelA_lightcurve [Fin 1] [''duration'' \<mapsto> Fin 3] = Inl (KeyError ''amplitude'')
   \<and> ModelB_lightcurve [Fin 1] [''duration'' \<mapsto> Fin 3] = Inl (KeyError ''amplitude'')"
  using missing_key_raises [of "[''duration'' \<mapsto> Fin 3]" "[Fin 1]"]
  by simp

section \<open>Properties of the evidence lookup\<close>

subsection \<open>Auxiliary facts\<close>

text \<open>The substring test holds exactly when the string splits around the substring.\<close>

lemma startswith_iff: "startswith s p \<longleftrightarrow> (\<exists>post. s = p @ post)"
  by (induction s p rule: startswith.induct) auto

lemma str_in_iff: "str_in sub s \<longleftrightarrow> (\<exists>pre post. s = pre @ sub @ post)"
proof (induction s)
  case Nil
  then show ?case by auto
next
  case (Cons c cs)
  show ?case
  proof
    assume "str_in sub (c # cs)"
    then consider "startswith (c # cs) sub" | "str_in sub cs" by auto
    then show "\<exists>pre post. c # cs = pre @ sub @ post"
    proof cases
      case 1
      then obtain post where "c # cs = sub @ post" by (auto simp: startswith_iff)
      then have "c # cs = [] @ sub @ post" by simp
      then show ?thesis by blast
    next
      case 2
      then obtain pre post where "cs = pre @ sub @ post" using Cons.IH by auto
      then have "c # cs = (c # pre) @ sub @ post" by simp
      then show ?thesis by blast
    qed
  next
    assume "\<exists>pre post. c # cs = pre @ sub @ post"
    then obtain pre post where eq: "c # cs = pre @ sub @ post" by auto
    show "str_in sub (c # cs)"
    proof (cases pre)
      case Nil
      then have "startswith (c # cs) sub" using eq by (auto simp: startswith_iff)
      then show ?thesis by simp
    next
      case (Cons p pre')
      then have "cs = pre' @ sub @ post" using eq by simp
      then have "str_in sub cs" using Cons.IH by auto
      then show ?thesis by simp
    qed
  qed
qed

lemma find_filter: "find P xs = Some x \<Longrightarrow> \<exists>rest. filter P xs = x # rest"
  by (induction xs) (auto split: if_splits)

lemma filter_find: "filter P xs = x # rest \<Longrightarrow> find P xs = Some x"
  by (induction xs) (auto split: if_splits)

lemma loadtxt_example: "parse_table ''3.14 0.01'' = Inr [[Fin 3.14, Fin 0.01]]"
  by (simp add: parse_table_def token_rows_def tokens_def strip_comment_def isspace_def
      to_float_def split_sign_def lower_def parse_decimal_def parse_mantissa_def
      parse_exponent_def all_digits_def isdigit_def digits_val_def digit_val_def scale10_def)

lemma results_folder_42_A: "results_folder 42 ''A'' = ''results/event42_A/''"
  by (simp add: results_folder_def str_int_def str_nat.simps digit_char_def)

subsection \<open>The lookup\<close>

text \<open>
  C3. When the directory \<^verbatim>\<open>results/event42_A/\<close> exists, the first of its entries
  whose name contains \<^verbatim>\<open>evidence.txt\<close> is \<^verbatim>\<open>run1_evidence.txt\<close>, and that
  file holds the text \<^verbatim>\<open>3.14 0.01\<close>, then \<open>GetEvidence 42 'A'\<close> returns the
  number 3.14.
\<close>

theorem GetEvidence_prepared_directory:
  assumes "fs ''results/event42_A/'' = Some (Dir files)"
    and "find (str_in ''evidence.txt'') files = Some ''run1_evidence.txt''"
    and "fs ''results/event42_A/run1_evidence.txt'' = Some (File ''3.14 0.01'')"
  shows "GetEvidence fs 42 ''A'' = Inr (Float (Fin 3.14))"
proof -
  obtain rest where "filter (str_in ''evidence.txt'') files = ''run1_evidence.txt'' # rest"
    using find_filter [OF assms(2)] by auto
  then show ?thesis
    using assms(1,3)
    by (simp add: GetEvidence_def results_folder_42_A listdir_def loadtxt_def loadtxt_example
        squeeze_def)
qed

theorem GetEvidence_prepared_directory_witness:
  "[''results/event42_A/'' \<mapsto> Dir [''notes.md'', ''run1_evidence.txt''],
    ''results/event42_A/run1_evidence.txt'' \<mapsto> File ''3.14 0.01''] ''results/event42_A/''
     = Some (Dir [''notes.md'', ''run1_evidence.txt''])
   \<and> find (str_in ''evidence.txt'') [''notes.md'', ''run1_evidence.txt''] = Some ''run1_evidence.txt''
   \<and> [''results/event42_A/'' \<mapsto> Dir [''notes.md'', ''run1_evidence.txt''],
       ''results/event42_A/run1_evidence.txt'' \<mapsto> File ''3.14 0.01'']
        ''results/event42_A/run1_evidence.txt'' = Some (File ''3.14 0.01'')
   \<and> GetEvidence
        [''results/event42_A/'' \<mapsto> Dir [''notes.md'', ''run1_evidence.txt''],
         ''results/event42_A/run1_evidence.txt'' \<mapsto> File ''3.14 0.01''] 42 ''A''
       = Inr (Float (Fin 3.14))"
  using GetEvidence_prepared_directory
    [of "[''results/event42_A/'' \<mapsto> Dir [''notes.md'', ''run1_evidence.txt''],
          ''results/event42_A/run1_evidence.txt'' \<mapsto> File ''3.14 0.01'']"
        "[''notes.md'', ''run1_evidence.txt'']"]
  by simp

text \<open>
  C9. For every event and model label: when the results directory does not exist,
  \<open>GetEvidence\<close> raises FileNotFoundError; when it exists and no entry has a name
  that contains \<^verbatim>\<open>evidence.txt\<close>, \<open>GetEvidence\<close> raises IndexError. Neither
  case returns a value.
\<close>

theorem GetEvidence_not_found:
  "(fs (results_folder eventID model) = None
      \<longrightarrow> GetEvidence fs eventID model = Inl FileNotFoundError)
   \<and> (fs (results_folder eventID model) = Some (Dir files)
        \<and> (\<forall>name \<in> set files. \<not> str_in ''evidence.txt'' name)
      \<longrightarrow> GetEvidence fs eventID model = Inl IndexError)"
proof (intro conjI impI)
  assume "fs (results_folder eventID model) = None"
  then show "GetEvidence fs eventID model = Inl FileNotFoundError"
    by (simp add: GetEvidence_def listdir_def)
next
  assume a: "fs (results_folder eventID model) = Some (Dir files)
        \<and> (\<forall>name \<in> set files. \<not> str_in ''evidence.txt'' name)"
  then have "filter (\<lambda>name. str_in ''evidence.txt'' name) files = []"
    by (simp add: filter_empty_conv)
  then show "GetEvidence fs eventID model = Inl IndexError"
    using a by (simp add: GetEvidence_def listdir_def)
qed

theorem GetEvidence_not_found_witness:
  "Map.empty (results_folder 42 ''A'') = None
   \<and> GetEvidence Map.empty 42 ''A'' = Inl FileNotFoundError
   \<and> [''results/event42_A/'' \<mapsto> Dir [''notes.md'', ''evidence.tx'']] (results_folder 42 ''A'')
       = Some (Dir [''notes.md'', ''evidence.tx''])
   \<and> \<not> str_in ''evidence.txt'' ''notes.md'' \<and> \<not> str_in ''evidence.txt'' ''evidence.tx''
   \<and> GetEvidence [''results/event42_A/'' \<mapsto> Dir [''notes.md'', ''evidence.tx'']] 42 ''A''
       = Inl IndexError"
  using GetEvidence_not_found [of Map.empty 42 "''A''"]
    GetEvidence_not_found [of "[''results/event42_A/'' \<mapsto> Dir [''notes.md'', ''evidence.tx'']]"
      42 "''A''" "[''notes.md'', ''evidence.tx'']"]
  by (simp add: results_folder_42_A)

text \<open>
  C10. When the matched evidence file holds exactly one number, the loaded data is a
  zero-dimensional array and \<open>GetEvidence\<close> raises IndexError instead of returning
  the number. Whenever \<open>GetEvidence\<close> returns a value, the loaded data is an array
  of one or two dimensions with a first element, and that element is the value.
\<close>

theorem GetEvidence_scalar_file:
  "(fs (results_folder eventID model) = Some (Dir files)
      \<and> find (str_in ''evidence.txt'') files = Some evidence_file
      \<and> fs (results_folder eventID model @ evidence_file) = Some (File text)
      \<and> token_rows text = [[tok]] \<and> to_float tok = Some v
    \<longrightarrow> loadtxt fs (results_folder eventID model @ evidence_file) = Inr (Arr0 v)
        \<and> GetEvidence fs eventID model = Inl IndexError)
   \<and> (GetEvidence fs eventID model = Inr r
    \<longrightarrow> (\<exists>files evidence_file data.
           fs (results_folder eventID model) = Some (Dir files)
           \<and> find (str_in ''evidence.txt'') files = Some evidence_file
           \<and> loadtxt fs (results_folder eventID model @ evidence_file) = Inr data
           \<and> ((\<exists>v vs. data = Arr1 (v # vs) \<and> r = Float v)
              \<or> (\<exists>row rows. data = Arr2 (row # rows) \<and> r = Array row))))"
proof (intro conjI impI)
  assume a: "fs (results_folder eventID model) = Some (Dir files)
      \<and> find (str_in ''evidence.txt'') files = Some evidence_file
      \<and> fs (results_folder eventID model @ evidence_file) = Some (File text)
      \<and> token_rows text = [[tok]] \<and> to_float tok = Some v"
  then obtain rest where f: "filter (str_in ''evidence.txt'') files = evidence_file # rest"
    using find_filter [of "str_in ''evidence.txt''" files evidence_file] by auto
  have l: "loadtxt fs (results_folder eventID model @ evidence_file) = Inr (Arr0 v)"
    using a by (simp add: loadtxt_def parse_table_def squeeze_def)
  then show "loadtxt fs (results_folder eventID model @ evidence_file) = Inr (Arr0 v)" .
  show "GetEvidence fs eventID model = Inl IndexError"
    using a f l by (simp add: GetEvidence_def listdir_def)
next
  assume r: "GetEvidence fs eventID model = Inr r"
  let ?folder = "results_folder eventID model"
  from r obtain files where d: "fs ?folder = Some (Dir files)"
    by (auto simp: GetEvidence_def Let_def listdir_def split: option.splits node.splits)
  with r obtain evidence_file rest where f: "filter (str_in ''evidence.txt'') files = evidence_file # rest"
    by (auto simp: GetEvidence_def Let_def listdir_def split: list.splits)
  with r d obtain data where l: "loadtxt fs (?folder @ evidence_file) = Inr data" and i: "index0 data = Inr r"
    by (auto simp: GetEvidence_def Let_def listdir_def split: sum.splits)
  from i have "(\<exists>v vs. data = Arr1 (v # vs) \<and> r = Float v)
              \<or> (\<exists>row rows. data = Arr2 (row # rows) \<and> r = Array row)"
    by (cases data rule: index0.cases) auto
  with d l filter_find [OF f] show "\<exists>files evidence_file data.
           fs ?folder = Some (Dir files)
           \<and> find (str_in ''evidence.txt'') files = Some evidence_file
           \<and> loadtxt fs (?folder @ evidence_file) = Inr data
           \<and> ((\<exists>v vs. data = Arr1 (v # vs) \<and> r = Float v)
              \<or> (\<exists>row rows. data = Arr2 (row # rows) \<and> r = Array row))"
    by blast
qed

theorem GetEvidence_scalar_file_witness:
  "[''results/event7_B/'' \<mapsto> Dir [''evidence.txt''],
    ''results/event7_B/evidence.txt'' \<mapsto> File ''3.14''] (results_folder 7 ''B'')
     = Some (Dir [''evidence.txt''])
   \<and> find (str_in ''evidence.txt'') [''evidence.txt''] = Some ''evidence.txt''
   \<and> [''results/event7_B/'' \<mapsto> Dir [''evidence.txt''],
       ''results/event7_B/evidence.txt'' \<mapsto> File ''3.14'']
        (results_folder 7 ''B'' @ ''evidence.txt'') = Some (File ''3.14'')
   \<and> token_rows ''3.14'' = [[''3.14'']] \<and> to_float ''3.14'' = Some (Fin 3.14)
   \<and> GetEvidence
        [''results/event7_B/'' \<mapsto> Dir [''evidence.txt''],
         ''results/event7_B/evidence.txt'' \<mapsto> File ''3.14''] 7 ''B'' = Inl IndexError
   \<and> GetEvidence
        [''results/event42_A/'' \<mapsto> Dir [''run1_evidence.txt''],
         ''results/event42_A/run1_evidence.txt'' \<mapsto> File ''3.14 0.01''] 42 ''A''
       = Inr (Float (Fin 3.14))
   \<and> (\<exists>files evidence_file data.
         [''results/event42_A/'' \<mapsto> Dir [''run1_evidence.txt''],
          ''results/event42_A/run1_evidence.txt'' \<mapsto> File ''3.14 0.01'']
           (results_folder 42 ''A'') = Some (Dir files)
         \<and> find (str_in ''evidence.txt'') files = Some evidence_file
         \<and> loadtxt
              [''results/event42_A/'' \<mapsto> Dir [''run1_evidence.txt''],
               ''results/event42_A/run1_evidence.txt'' \<mapsto> File ''3.14 0.01'']
              (results_folder 42 ''A'' @ evidence_file) = Inr data
         \<and> ((\<exists>v vs. data = Arr1 (v # vs) \<and> Float (Fin 3.14) = Float v)
            \<or> (\<exists>row rows. data = Arr2 (row # rows) \<and> Float (Fin 3.14) = Array row)))"
proof -
  let ?fs = "[''results/event7_B/'' \<mapsto> Dir [''evidence.txt''],
              ''results/event7_B/evidence.txt'' \<mapsto> File ''3.14'']"
  have folder: "results_folder 7 ''B'' = ''results/event7_B/''"
    by (simp add: results_folder_def str_int_def str_nat.simps digit_char_def)
  have rows: "token_rows ''3.14'' = [[''3.14'']]"
    by (simp add: token_rows_def tokens_def strip_comment_def isspace_def)
  have num: "to_float ''3.14'' = Some (Fin 3.14)"
    by (simp add: to_float_def split_sign_def lower_def parse_decimal_def parse_mantissa_def
        parse_exponent_def all_digits_def isdigit_def digits_val_def digit_val_def scale10_def)
  have hyp: "?fs (results_folder 7 ''B'') = Some (Dir [''evidence.txt''])
      \<and> find (str_in ''evidence.txt'') [''evidence.txt''] = Some ''evidence.txt''
      \<and> ?fs (results_folder 7 ''B'' @ ''evidence.txt'') = Some (File ''3.14'')
      \<and> token_rows ''3.14'' = [[''3.14'']] \<and> to_float ''3.14'' = Some (Fin 3.14)"
    using rows num by (simp add: folder)
  have "GetEvidence ?fs 7 ''B'' = Inl IndexError"
    using GetEvidence_scalar_file [of ?fs 7 "''B''" "[''evidence.txt'']" "''evidence.txt''"
        "''3.14''" "''3.14''" "Fin 3.14"] hyp
    by blast
  moreover
  let ?fs' = "[''results/event42_A/'' \<mapsto> Dir [''run1_evidence.txt''],
               ''results/event42_A/run1_evidence.txt'' \<mapsto> File ''3.14 0.01'']"
  have ret: "GetEvidence ?fs' 42 ''A'' = Inr (Float (Fin 3.14))"
    by (simp add: GetEvidence_def results_folder_42_A listdir_def loadtxt_def loadtxt_example
        squeeze_def)
  have "\<exists>files evidence_file data.
         ?fs' (results_folder 42 ''A'') = Some (Dir files)
         \<and> find (str_in ''evidence.txt'') files = Some evidence_file
         \<and> loadtxt ?fs' (results_folder 42 ''A'' @ evidence_file) = Inr data
         \<and> ((\<exists>v vs. data = Arr1 (v # vs) \<and> Float (Fin 3.14) = Float v)
            \<or> (\<exists>row rows. data = Arr2 (row # rows) \<and> Float (Fin 3.14) = Array row))"
    using GetEvidence_scalar_file [of ?fs' 42 "''A''" _ _ _ _ _ "Float (Fin 3.14)"] ret
    by blast
  ultimately show ?thesis using hyp ret by blast
qed

end
